theory Spec2Isabelle
  imports Complex_Main
begin

section \<open>The navigation example screens\<close>

text \<open>
  The repository holds two React Native screens, both named \<open>NavigationScreen\<close>:
  \<^verbatim>\<open>example/src/NavigationScreen.tsx\<close> and a second file whose path is not known
  (\<^verbatim>\<open>unnamed/part_000\<close>). Each is one function component: six \<open>useState\<close> cells, a set
  of callbacks given to the navigation SDK and to the view, and a render expression.

  The embedding: the six state cells are a record; every callback is a function from the
  state of the render that created it to a result, which holds the state after the
  callback's \<open>setState\<close> calls, the trace of what the callback did to the outside
  (snackbars, console output, calls on the SDK's controllers, in order), and whether the
  callback returned or let an exception escape. An awaited SDK call may reject; which calls
  reject is a parameter. Each callback runs to its end before the next event.
\<close>

subsection \<open>State\<close>

datatype OverlayType = OverlayNone | NavControls | MapControls

text \<open>Controller handles are opaque references to native objects.\<close>

type_synonym MapViewController = nat
type_synonym NavigationViewController = nat
type_synonym NavigationController = nat

text \<open>The \<open>useState\<close> cells of the component. \<open>margin\<close> is \<open>number | null\<close>.\<close>

record state =
  overlayType :: OverlayType
  mapViewController :: "MapViewController option"
  navigationViewController :: "NavigationViewController option"
  navigationInitialized :: bool
  displayMap :: bool
  margin :: "int option"

text \<open>The initial arguments of the \<open>useState\<close> calls: the state at mount.\<close>

definition initial_state :: state where
  "initial_state =
     \<lparr> overlayType = OverlayNone, mapViewController = None, navigationViewController = None,
       navigationInitialized = False, displayMap = False, margin = None \<rparr>"

text \<open>
  What the hooks \<open>usePermissions\<close> and \<open>useNavigation\<close> of the SDK give the render. The
  render expression and \<open>onRemainingTimeOrDistanceChanged\<close> test \<open>navigationController\<close>
  for null; the other callbacks call its methods with no test, and when it is null such a
  call throws a \<open>TypeError\<close> before anything reaches the SDK.
\<close>

record hooks =
  arePermissionsApproved :: bool
  navigationController :: "NavigationController option"

definition marginAmount :: int where
  "marginAmount = 50"

subsection \<open>Values passed to the SDK\<close>

record LatLng =
  lat :: real
  lng :: real

record CameraPosition =
  target :: LatLng
  zoom :: real
  bearing :: real
  tilt :: "real option"

record RoutingOptions =
  travelMode :: nat
  alternateRoutesStrategy :: nat
  avoidFerries :: bool
  avoidTolls :: bool

record MarkerOptions =
  position :: LatLng
  visible :: bool

text \<open>A \<open>Waypoint\<close> as the screens build it: an object with the one field \<open>position\<close>.\<close>

datatype Waypoint = Waypoint LatLng

text \<open>
  The methods the screens call on the map view controller, the navigation controller and
  the navigation view controller, with their arguments.
\<close>

datatype sdk_call =
    clearMapView
  | moveCamera CameraPosition
  | addMarker MarkerOptions
  | setMyLocationEnabled bool
  | removePolygon string
  | removeCircle string
  | removePolyline string
  | clearDestinations
  | cleanup
  | stopGuidance
  | continueToNextDestination
  | startGuidance
  | setDestinations "Waypoint list" "RoutingOptions option"
  | init
  | getCurrentTimeAndDistance
  | setNavigationUIEnabled bool
  | showRouteOverview

subsection \<open>Effects and results\<close>

datatype duration = LENGTH_SHORT

datatype effect =
    Snackbar_show string duration
  | console_log string
  | console_error string
  | Sdk sdk_call
  | navigation_addListener string

datatype outcome = Returned | Threw sdk_call | TypeError

record result =
  st :: state
  trace :: "effect list"
  outcome :: outcome

text \<open>Which SDK calls reject, only_if awaited or made inside a \<open>try\<close> block.\<close>

type_synonym env = "sdk_call \<Rightarrow> bool"

definition no_rejections :: env where
  "no_rejections = (\<lambda>c. False)"

type_synonym step = "state \<Rightarrow> result"

definition ret :: step where
  "ret s = \<lparr> st = s, trace = [], outcome = Returned \<rparr>"

definition emit :: "effect list \<Rightarrow> step" where
  "emit es s = \<lparr> st = s, trace = es, outcome = Returned \<rparr>"

text \<open>Statement sequencing: an exception skips the rest.\<close>

definition seq :: "result \<Rightarrow> step \<Rightarrow> result" where
  "seq r k =
     (case outcome r of
        Returned \<Rightarrow> (let r' = k (st r) in r' \<lparr> trace := trace r @ trace r' \<rparr>)
      | _ \<Rightarrow> r)"

fun run :: "step list \<Rightarrow> step" where
  "run [] s = ret s"
| "run (p # ps) s = seq (p s) (run ps)"

text \<open>\<open>await c\<close>: the call is made; a rejection is thrown at the await.\<close>

definition await :: "env \<Rightarrow> sdk_call \<Rightarrow> step" where
  "await rejects c s =
     \<lparr> st = s, trace = [Sdk c], outcome = (if rejects c then Threw c else Returned) \<rparr>"

text \<open>
  A call whose promise is not awaited: the call is made and the callback goes on; a
  rejection of the promise never reaches the callback.
\<close>

definition fire :: "sdk_call \<Rightarrow> step" where
  "fire c = emit [Sdk c]"

text \<open>
  A method call on \<open>navigationController\<close>, awaited or not: on a null controller the
  member access throws and no call is made.
\<close>

definition nav_await :: "env \<Rightarrow> hooks \<Rightarrow> sdk_call \<Rightarrow> step" where
  "nav_await rejects h c s =
     (if navigationController h = None
      then \<lparr> st = s, trace = [], outcome = TypeError \<rparr>
      else await rejects c s)"

definition nav_fire :: "hooks \<Rightarrow> sdk_call \<Rightarrow> step" where
  "nav_fire h c s =
     (if navigationController h = None
      then \<lparr> st = s, trace = [], outcome = TypeError \<rparr>
      else fire c s)"

text \<open>\<open>try { body } catch (error) { handler }\<close>.\<close>

definition try_catch :: "step \<Rightarrow> step \<Rightarrow> step" where
  "try_catch body handler s =
     (let r = body s in
      case outcome r of
        Returned \<Rightarrow> r
      | _ \<Rightarrow> (let r' = handler (st r) in r' \<lparr> trace := trace r @ trace r' \<rparr>))"

definition showSnackbar :: "string \<Rightarrow> step" where
  "showSnackbar text = emit [Snackbar_show text LENGTH_SHORT]"

text \<open>The state setters.\<close>

definition setOverlayType :: "OverlayType \<Rightarrow> step" where
  "setOverlayType v s = ret (s \<lparr> overlayType := v \<rparr>)"

definition setMapViewController :: "MapViewController \<Rightarrow> step" where
  "setMapViewController c s = ret (s \<lparr> mapViewController := Some c \<rparr>)"

definition setNavigationViewController :: "NavigationViewController \<Rightarrow> step" where
  "setNavigationViewController c s = ret (s \<lparr> navigationViewController := Some c \<rparr>)"

definition setNavigationInitialized :: "bool \<Rightarrow> step" where
  "setNavigationInitialized v s = ret (s \<lparr> navigationInitialized := v \<rparr>)"

definition setDisplayMap :: "bool \<Rightarrow> step" where
  "setDisplayMap v s = ret (s \<lparr> displayMap := v \<rparr>)"

definition setMargin :: "int option \<Rightarrow> step" where
  "setMargin v s = ret (s \<lparr> margin := v \<rparr>)"

definition logs :: "string \<Rightarrow> step" where
  "logs text = emit [console_log text]"

definition only_if :: "bool \<Rightarrow> step \<Rightarrow> step" where
  "only_if b p = (if b then p else ret)"

text \<open>
  A call of an \<open>async\<close> callback with no \<open>await\<close>: what it does happens, and its
  rejection stays in the promise nobody reads.
\<close>

definition detach :: "step \<Rightarrow> step" where
  "detach p s = (p s) \<lparr> outcome := Returned \<rparr>"

text \<open>JavaScript truthiness of a \<open>number | null\<close>.\<close>

fun truthy :: "int option \<Rightarrow> bool" where
  "truthy None = False"
| "truthy (Some n) = (n \<noteq> 0)"

subsection \<open>Callbacks the two screens share word for word\<close>

text \<open>
  Console output is kept by its message text; the objects printed after it (a location, a
  marker, an error) are not represented.
\<close>

definition onRouteChanged :: step where
  "onRouteChanged = showSnackbar ''Route Changed''"

definition cleanUpNavigation :: "env \<Rightarrow> hooks \<Rightarrow> step" where
  "cleanUpNavigation rejects h s =
     run [ only_if (mapViewController s \<noteq> None) (fire clearMapView),
           nav_await rejects h clearDestinations,
           nav_await rejects h cleanup ] s"

text \<open>The callback of \<open>useFocusEffect\<close>, and the listener it registers for \<open>blur\<close>.\<close>

definition onFocus :: step where
  "onFocus = run [ setDisplayMap True, emit [navigation_addListener ''blur''] ]"

definition onBlur :: "env \<Rightarrow> hooks \<Rightarrow> step" where
  "onBlur rejects h = run [ setDisplayMap False, cleanUpNavigation rejects h ]"

definition onArrival :: "hooks \<Rightarrow> bool \<Rightarrow> step" where
  "onArrival h isFinalDestination =
     run [ (if isFinalDestination
            then run [ logs ''Final destination reached'', nav_fire h stopGuidance ]
            else run [ logs ''Continuing to the next destination'',
                       nav_fire h continueToNextDestination,
                       nav_fire h startGuidance ]),
           showSnackbar ''Arrived'' ]"

definition onTrafficUpdated :: step where
  "onTrafficUpdated = showSnackbar ''Traffic Updated''"

definition createWayPoints :: "env \<Rightarrow> LatLng list \<Rightarrow> step" where
  "createWayPoints rejects wayPoints s =
     run (map (\<lambda>wayPoint.
                 only_if (mapViewController s \<noteq> None)
                   (await rejects (addMarker \<lparr> position = wayPoint, visible = True \<rparr>)))
              wayPoints) s"

definition destinations_of :: "LatLng list \<Rightarrow> Waypoint list" where
  "destinations_of wayPoints =
     map (\<lambda>wayPoint. Waypoint \<lparr> lat = lat wayPoint, lng = lng wayPoint \<rparr>) wayPoints"

definition onNavigationDispose :: "env \<Rightarrow> step" where
  "onNavigationDispose rejects s =
     run [ only_if (navigationViewController s \<noteq> None)
             (await rejects (setNavigationUIEnabled False)),
           setNavigationInitialized False ] s"

definition onNavigationInitError :: "string \<Rightarrow> step" where
  "onNavigationInitError errorCode =
     showSnackbar (''Failed to initialize navigation errorCode: '' @ errorCode)"

definition onStartGuidance :: step where
  "onStartGuidance = showSnackbar ''Start Guidance''"

definition onRouteCancelled :: step where
  "onRouteCancelled = showSnackbar ''Error: Route Cancelled''"

definition onNoRouteFound :: step where
  "onNoRouteFound = showSnackbar ''Error: No Route Found''"

definition onNetworkError :: step where
  "onNetworkError = showSnackbar ''Error: Network Error''"

definition onStartingGuidanceError :: step where
  "onStartingGuidanceError = showSnackbar ''Error: Starting Guidance Error''"

definition onLocationDisabled :: step where
  "onLocationDisabled = showSnackbar ''Error: Location Disabled''"

definition onLocationUnknown :: step where
  "onLocationUnknown = showSnackbar ''Error: Location Unknown''"

definition onLocationChanged :: step where
  "onLocationChanged = logs ''onLocationChanged:''"

definition onRawLocationChanged :: step where
  "onRawLocationChanged = logs ''onRawLocationChanged:''"

definition onTurnByTurn :: step where
  "onTurnByTurn = logs ''onTurnByTurn:''"

definition onRemainingTimeOrDistanceChanged :: "env \<Rightarrow> hooks \<Rightarrow> step" where
  "onRemainingTimeOrDistanceChanged rejects h =
     run [ only_if (navigationController h \<noteq> None)
             (run [ await rejects getCurrentTimeAndDistance, logs ''currentTimeAndDistance'' ]),
           logs ''called onRemainingTimeOrDistanceChanged'' ]"

definition onMapReady :: "env \<Rightarrow> hooks \<Rightarrow> step" where
  "onMapReady rejects h s =
     run [ logs ''Map is ready, initializing navigator...'',
           try_catch
             (run [ nav_await rejects h init,
                    only_if (mapViewController s \<noteq> None) (fire (setMyLocationEnabled True)) ])
             (run [ emit [console_error ''Error initializing navigator''],
                    showSnackbar ''Error initializing navigator'' ]) ] s"

definition onShowNavControlsClick :: step where
  "onShowNavControlsClick = setOverlayType NavControls"

definition onShowMapsControlsClick :: step where
  "onShowMapsControlsClick = setOverlayType MapControls"

definition closeOverlay :: step where
  "closeOverlay = setOverlayType OverlayNone"

text \<open>The \<open>onValueChange\<close> of the margin switch.\<close>

definition onMarginValueChange :: step where
  "onMarginValueChange s = setMargin (if truthy (margin s) then None else Some marginAmount) s"

text \<open>The map view callbacks written inline in \<open>mapViewCallbacks\<close>.\<close>

definition onMarkerClick :: step where
  "onMarkerClick = logs ''onMarkerClick:''"

definition onPolygonClick :: "string \<Rightarrow> step" where
  "onPolygonClick polygon_id s =
     run [ logs ''onPolygonClick:'',
           only_if (mapViewController s \<noteq> None) (fire (removePolygon polygon_id)) ] s"

definition onCircleClick :: "string \<Rightarrow> step" where
  "onCircleClick circle_id s =
     run [ logs ''onCircleClick:'',
           only_if (mapViewController s \<noteq> None) (fire (removeCircle circle_id)) ] s"

definition onPolylineClick :: "string \<Rightarrow> step" where
  "onPolylineClick polyline_id s =
     run [ logs ''onPolylineClick:'',
           only_if (mapViewController s \<noteq> None) (fire (removePolyline polyline_id)) ] s"

definition onMarkerInfoWindowTapped :: step where
  "onMarkerInfoWindowTapped = logs ''onMarkerInfoWindowTapped:''"

definition onMapClick :: step where
  "onMapClick = logs ''onMapClick:''"

subsection \<open>Callbacks of \<^verbatim>\<open>example/src/NavigationScreen.tsx\<close>\<close>

definition moveCameraToStartingSpot :: "env \<Rightarrow> step" where
  "moveCameraToStartingSpot rejects s =
     run [ logs ''Ryan - moveCameraToStartingSpot'',
           only_if (mapViewController s \<noteq> None)
             (run [ logs ''Ryan - moveCameraToStartingSpot - mapViewController'',
                    try_catch
                      (await rejects
                         (moveCamera \<lparr> target = \<lparr> lat = 32.8271135, lng = - 96.830288 \<rparr>,
                                       zoom = 10, bearing = 0, tilt = Some 0 \<rparr>))
                      (run [ emit [console_error ''Error moving camera''],
                             showSnackbar ''Error moving camera'' ]) ]) ] s"

definition wayPoints :: "LatLng list" where
  "wayPoints =
     [ \<lparr> lat = 32.78889, lng = - 96.906553 \<rparr>,
       \<lparr> lat = 32.7215158, lng = - 96.8094594 \<rparr>,
       \<lparr> lat = 32.709446, lng = - 96.746567 \<rparr>,
       \<lparr> lat = 32.842525, lng = - 96.810209 \<rparr>,
       \<lparr> lat = 32.770895, lng = - 96.697785 \<rparr>,
       \<lparr> lat = 32.793867, lng = - 96.767341 \<rparr>,
       \<lparr> lat = 32.854362, lng = - 96.744946 \<rparr>,
       \<lparr> lat = 32.845018, lng = - 96.808388 \<rparr>,
       \<lparr> lat = 32.925, lng = - 96.846349 \<rparr>,
       \<lparr> lat = 32.901702, lng = - 96.982005 \<rparr>,
       \<lparr> lat = 32.778306, lng = - 96.697305 \<rparr>,
       \<lparr> lat = 32.7449539, lng = - 96.8513408 \<rparr>,
       \<lparr> lat = 32.7852848, lng = - 96.8186504 \<rparr> ]"

definition routingOptions :: RoutingOptions where
  "routingOptions =
     \<lparr> travelMode = 0, alternateRoutesStrategy = 1, avoidFerries = True, avoidTolls = False \<rparr>"

definition onNavigationReady :: "env \<Rightarrow> hooks \<Rightarrow> step" where
  "onNavigationReady rejects h =
     run [ logs ''onNavigationReady'',
           setNavigationInitialized True,
           moveCameraToStartingSpot rejects,
           try_catch
             (nav_await rejects h
                (setDestinations (destinations_of wayPoints) (Some routingOptions)))
             (run [ emit [console_error ''Error setting destinations''],
                    showSnackbar ''Error setting destinations'' ]),
           createWayPoints rejects wayPoints ]"

definition onRouteStatusOk :: "env \<Rightarrow> step" where
  "onRouteStatusOk rejects =
     run [ showSnackbar ''Route created'', moveCameraToStartingSpot rejects ]"

definition onRecenterButtonClick :: "env \<Rightarrow> step" where
  "onRecenterButtonClick rejects =
     run [ logs ''onRecenterButtonClick'', moveCameraToStartingSpot rejects ]"

subsection \<open>Callbacks of the second screen (\<^verbatim>\<open>unnamed/part_000\<close>)\<close>

definition moveCameraToStartingSpot_unnamed :: "env \<Rightarrow> step" where
  "moveCameraToStartingSpot_unnamed rejects s =
     only_if (mapViewController s \<noteq> None)
       (await rejects
          (moveCamera \<lparr> target = \<lparr> lat = 42.060047, lng = - 87.824613 \<rparr>,
                        zoom = 10, bearing = 0, tilt = None \<rparr>)) s"

definition wayPoints_unnamed :: "LatLng list" where
  "wayPoints_unnamed =
     [ \<lparr> lat = 42.02265096971242, lng = - 87.88297802209854 \<rparr>,
       \<lparr> lat = 42.02367115228353, lng = - 87.78227012604475 \<rparr>,
       \<lparr> lat = 42.100817565947494, lng = - 87.86787182092667 \<rparr> ]"

definition onNavigationReady_unnamed :: "env \<Rightarrow> hooks \<Rightarrow> step" where
  "onNavigationReady_unnamed rejects h s =
     run [ logs ''onNavigationReady'',
           setNavigationInitialized True,
           moveCameraToStartingSpot_unnamed rejects,
           nav_fire h (setDestinations (destinations_of wayPoints_unnamed) None),
           createWayPoints rejects wayPoints_unnamed,
           only_if (navigationViewController s \<noteq> None) (await rejects showRouteOverview) ] s"

definition onRouteStatusOk_unnamed :: step where
  "onRouteStatusOk_unnamed = showSnackbar ''Route created''"

definition onRecenterButtonClick_unnamed :: step where
  "onRecenterButtonClick_unnamed = logs ''onRecenterButtonClick''"

subsection \<open>Route status\<close>

text \<open>
  \<open>RouteStatus\<close> is an enum of the SDK; its declaration is not among the sources. The
  switch of \<open>onRouteStatusResult\<close> names six of its members and has a \<open>default\<close> arm;
  \<open>OtherStatus\<close> stands for a value that matches none of the six cases, kept by the text
  the default arm prints.
\<close>

datatype RouteStatus =
    OK
  | ROUTE_CANCELED
  | NO_ROUTE_FOUND
  | NETWORK_ERROR
  | LOCATION_DISABLED
  | LOCATION_UNKNOWN
  | OtherStatus string

datatype screen = ExampleScreen | UnnamedScreen

text \<open>
  \<open>onRouteStatusResult\<close> is the same text in both files; \<open>onRouteStatusOk\<close>, which it
  calls with no \<open>await\<close>, is not.
\<close>

fun onRouteStatusResult :: "screen \<Rightarrow> env \<Rightarrow> RouteStatus \<Rightarrow> step" where
  "onRouteStatusResult ExampleScreen rejects OK = detach (onRouteStatusOk rejects)"
| "onRouteStatusResult UnnamedScreen rejects OK = onRouteStatusOk_unnamed"
| "onRouteStatusResult scr rejects ROUTE_CANCELED = onRouteCancelled"
| "onRouteStatusResult scr rejects NO_ROUTE_FOUND = onNoRouteFound"
| "onRouteStatusResult scr rejects NETWORK_ERROR = onNetworkError"
| "onRouteStatusResult scr rejects LOCATION_DISABLED = onLocationDisabled"
| "onRouteStatusResult scr rejects LOCATION_UNKNOWN = onLocationUnknown"
| "onRouteStatusResult scr rejects (OtherStatus routeStatus) =
     run [ logs (''routeStatus: '' @ routeStatus), onStartingGuidanceError ]"

subsection \<open>Events\<close>

text \<open>
  One event per callback the component hands out: the navigation callbacks, the map view
  callbacks, the navigation view callback, the two controller-created props, the focus
  effect and its blur listener, the buttons, the switch, the overlays' \<open>closeOverlay\<close>
  and the \<open>onNavigationDispose\<close> given to the navigation controls.
\<close>

datatype event =
    Focus
  | Blur
  | RouteChanged
  | Arrival bool
  | NavigationReady
  | NavigationInitError string
  | LocationChanged
  | RawLocationChanged
  | TrafficUpdated
  | RouteStatusResult RouteStatus
  | StartGuidance
  | RemainingTimeOrDistanceChanged
  | TurnByTurn
  | MapReady
  | MarkerClick
  | PolygonClick string
  | CircleClick string
  | PolylineClick string
  | MarkerInfoWindowTapped
  | MapClick
  | RecenterButtonClick
  | MapViewControllerCreated MapViewController
  | NavigationViewControllerCreated NavigationViewController
  | ShowNavControlsClick
  | ShowMapsControlsClick
  | CloseOverlay
  | MarginValueChange
  | NavigationDispose

fun handle :: "screen \<Rightarrow> env \<Rightarrow> hooks \<Rightarrow> event \<Rightarrow> step" where
  "handle scr rejects h Focus = onFocus"
| "handle scr rejects h Blur = onBlur rejects h"
| "handle scr rejects h RouteChanged = onRouteChanged"
| "handle scr rejects h (Arrival isFinalDestination) = onArrival h isFinalDestination"
| "handle ExampleScreen rejects h NavigationReady = onNavigationReady rejects h"
| "handle UnnamedScreen rejects h NavigationReady = onNavigationReady_unnamed rejects h"
| "handle scr rejects h (NavigationInitError errorCode) = onNavigationInitError errorCode"
| "handle scr rejects h LocationChanged = onLocationChanged"
| "handle scr rejects h RawLocationChanged = onRawLocationChanged"
| "handle scr rejects h TrafficUpdated = onTrafficUpdated"
| "handle scr rejects h (RouteStatusResult routeStatus) =
     onRouteStatusResult scr rejects routeStatus"
| "handle scr rejects h StartGuidance = onStartGuidance"
| "handle scr rejects h RemainingTimeOrDistanceChanged =
     onRemainingTimeOrDistanceChanged rejects h"
| "handle scr rejects h TurnByTurn = onTurnByTurn"
| "handle scr rejects h MapReady = onMapReady rejects h"
| "handle scr rejects h MarkerClick = onMarkerClick"
| "handle scr rejects h (PolygonClick i) = onPolygonClick i"
| "handle scr rejects h (CircleClick i) = onCircleClick i"
| "handle scr rejects h (PolylineClick i) = onPolylineClick i"
| "handle scr rejects h MarkerInfoWindowTapped = onMarkerInfoWindowTapped"
| "handle scr rejects h MapClick = onMapClick"
| "handle ExampleScreen rejects h RecenterButtonClick = onRecenterButtonClick rejects"
| "handle UnnamedScreen rejects h RecenterButtonClick = onRecenterButtonClick_unnamed"
| "handle scr rejects h (MapViewControllerCreated c) = setMapViewController c"
| "handle scr rejects h (NavigationViewControllerCreated c) = setNavigationViewController c"
| "handle scr rejects h ShowNavControlsClick = onShowNavControlsClick"
| "handle scr rejects h ShowMapsControlsClick = onShowMapsControlsClick"
| "handle scr rejects h CloseOverlay = closeOverlay"
| "handle scr rejects h MarginValueChange = onMarginValueChange"
| "handle scr rejects h NavigationDispose = onNavigationDispose rejects"

text \<open>
  The state after an event: the \<open>setState\<close> calls a callback made stay made when it
  throws later. A history is a list of events, each with the rejections of its moment.
\<close>

definition step_state :: "screen \<Rightarrow> hooks \<Rightarrow> state \<Rightarrow> env \<times> event \<Rightarrow> state" where
  "step_state scr h s x = st (handle scr (fst x) h (snd x) s)"

definition run_events :: "screen \<Rightarrow> hooks \<Rightarrow> (env \<times> event) list \<Rightarrow> state \<Rightarrow> state" where
  "run_events scr h xs s = foldl (step_state scr h) s xs"

subsection \<open>The render expression\<close>

text \<open>
  The component returns the view when \<open>arePermissionsApproved && displayMap\<close> and an
  empty fragment otherwise. Inside the view each \<open>OverlayModal\<close> is an element only under
  its own condition, and is visible when it is an element and its \<open>visible\<close> prop is true.
\<close>

definition viewRendered :: "hooks \<Rightarrow> state \<Rightarrow> bool" where
  "viewRendered h s = (arePermissionsApproved h \<and> displayMap s)"

definition navControlsOverlayRendered :: "hooks \<Rightarrow> state \<Rightarrow> bool" where
  "navControlsOverlayRendered h s =
     (viewRendered h s \<and>
      navigationViewController s \<noteq> None \<and>
      navigationController h \<noteq> None \<and>
      navigationInitialized s)"

definition navControlsOverlayVisible :: "hooks \<Rightarrow> state \<Rightarrow> bool" where
  "navControlsOverlayVisible h s =
     (navControlsOverlayRendered h s \<and> overlayType s = NavControls)"

definition mapControlsOverlayRendered :: "hooks \<Rightarrow> state \<Rightarrow> bool" where
  "mapControlsOverlayRendered h s = (viewRendered h s \<and> mapViewController s \<noteq> None)"

definition mapControlsOverlayVisible :: "hooks \<Rightarrow> state \<Rightarrow> bool" where
  "mapControlsOverlayVisible h s =
     (mapControlsOverlayRendered h s \<and> overlayType s = MapControls)"

text \<open>The \<open>disabled\<close> prop of the Navigation button, and the \<open>value\<close> prop of the switch.\<close>

definition navigationButtonDisabled :: "state \<Rightarrow> bool" where
  "navigationButtonDisabled s = (\<not> navigationInitialized s)"

definition marginSwitchValue :: "state \<Rightarrow> bool" where
  "marginSwitchValue s = truthy (margin s)"

subsection \<open>Registering the navigation callbacks\<close>

text \<open>
  \<open>navigationCallbacks\<close> is the memoised table of the eleven navigation callbacks; \<open>'h\<close> is
  the type of a callback reference. The effect registers the table and returns the
  cleanup that deregisters it.
\<close>

record 'h NavigationCallbacks =
  cb_onRouteChanged :: 'h
  cb_onArrival :: 'h
  cb_onNavigationReady :: 'h
  cb_onNavigationInitError :: 'h
  cb_onLocationChanged :: 'h
  cb_onRawLocationChanged :: 'h
  cb_onTrafficUpdated :: 'h
  cb_onRouteStatusResult :: 'h
  cb_onStartGuidance :: 'h
  cb_onRemainingTimeOrDistanceChanged :: 'h
  cb_onTurnByTurn :: 'h

datatype 'h listener_call =
    addListeners "'h NavigationCallbacks"
  | removeListeners "'h NavigationCallbacks"

text \<open>
  The body of the \<open>useEffect\<close>: the calls of the setup, and the calls of the cleanup it
  returns.
\<close>

definition listenersEffect ::
  "'h NavigationCallbacks \<Rightarrow> 'h listener_call list \<times> 'h listener_call list" where
  "listenersEffect navigationCallbacks =
     ([addListeners navigationCallbacks], [removeListeners navigationCallbacks])"

text \<open>
  \<open>useEffect\<close> with the table as its dependency, over the renders of one mount: the first
  render runs the setup; a render whose table differs from the one of the effect in force
  runs that effect's cleanup and then the new setup; a render with the same table does
  nothing. \<open>pending\<close> is the cleanup of the effect in force together with its table.
\<close>

fun useEffect_renders ::
  "('h NavigationCallbacks \<times> 'h listener_call list) option \<Rightarrow> 'h NavigationCallbacks list \<Rightarrow>
   'h listener_call list \<times> ('h NavigationCallbacks \<times> 'h listener_call list) option" where
  "useEffect_renders pending [] = ([], pending)"
| "useEffect_renders None (t # ts) =
     (let (setup, teardown) = listenersEffect t;
          (rest, pending') = useEffect_renders (Some (t, teardown)) ts
      in (setup @ rest, pending'))"
| "useEffect_renders (Some (t0, teardown0)) (t # ts) =
     (if t = t0 then useEffect_renders (Some (t0, teardown0)) ts
      else (let (setup, teardown) = listenersEffect t;
                (rest, pending') = useEffect_renders (Some (t, teardown)) ts
            in (teardown0 @ setup @ rest, pending')))"

text \<open>Unmount runs the cleanup of the effect in force.\<close>

definition mount_to_unmount :: "'h NavigationCallbacks list \<Rightarrow> 'h listener_call list" where
  "mount_to_unmount ts =
     (let (calls, pending) = useEffect_renders None ts
      in calls @ (case pending of None \<Rightarrow> [] | Some (t, teardown) \<Rightarrow> teardown))"

text \<open>The table an external event source holds after a list of calls.\<close>

fun registered :: "'h listener_call list \<Rightarrow> 'h NavigationCallbacks list \<Rightarrow> 'h NavigationCallbacks list" where
  "registered [] reg = reg"
| "registered (addListeners t # cs) reg = registered cs (reg @ [t])"
| "registered (removeListeners t # cs) reg = registered cs (remove1 t reg)"

subsection \<open>Subscribing the blur listener\<close>

text \<open>
  The callback given to \<open>useFocusEffect\<close> registers its listener for \<open>blur\<close> with
  \<open>navigation.addListener\<close> and returns what that call returns, the function that
  unsubscribes the listener; \<open>'l\<close> is the type of a listener reference. As for the
  navigation callbacks: the calls of the callback, and the calls of the cleanup it returns.
\<close>

datatype 'l subscription_call =
    addListener_blur 'l
  | unsubscribe 'l

definition focusEffect :: "'l \<Rightarrow> 'l subscription_call list \<times> 'l subscription_call list" where
  "focusEffect listener = ([addListener_blur listener], [unsubscribe listener])"

text \<open>The listeners the navigation object holds for \<open>blur\<close> after a list of calls.\<close>

fun subscribed :: "'l subscription_call list \<Rightarrow> 'l list \<Rightarrow> 'l list" where
  "subscribed [] reg = reg"
| "subscribed (addListener_blur l # cs) reg = subscribed cs (reg @ [l])"
| "subscribed (unsubscribe l # cs) reg = subscribed cs (remove1 l reg)"

text \<open>
  \<open>useFocusEffect\<close> over the life of the screen. The effect runs when the screen gains
  focus, and again when its callback changes while the screen has focus: the cleanup in
  force runs first, then the callback, with the listener of the current render. When
  the navigation object emits \<open>blur\<close>, the listeners it holds at that moment are called,
  and the cleanup in force runs. The result lists, for every emission, the listeners
  called. \<open>pending\<close> is the cleanup in force, empty when there is none.
\<close>

datatype 'l focus_event = EffectRuns 'l | BlurEmitted

fun blur_deliveries ::
  "'l list \<Rightarrow> 'l subscription_call list \<Rightarrow> 'l focus_event list \<Rightarrow> 'l list list" where
  "blur_deliveries reg pending [] = []"
| "blur_deliveries reg pending (EffectRuns l # es) =
     (let (setup, teardown) = focusEffect l
      in blur_deliveries (subscribed (pending @ setup) reg) teardown es)"
| "blur_deliveries reg pending (BlurEmitted # es) =
     reg # blur_deliveries (subscribed pending reg) [] es"

subsection \<open>Reading a trace\<close>

text \<open>The calls on the SDK's controllers in a trace, and the texts of its snackbars, in order.\<close>

fun sdk_calls :: "effect list \<Rightarrow> sdk_call list" where
  "sdk_calls [] = []"
| "sdk_calls (Sdk c # es) = c # sdk_calls es"
| "sdk_calls (e # es) = sdk_calls es"

fun snackbars :: "effect list \<Rightarrow> string list" where
  "snackbars [] = []"
| "snackbars (Snackbar_show text d # es) = text # snackbars es"
| "snackbars (e # es) = snackbars es"

text \<open>A step that leaves the state cells as they are, however it ends.\<close>

definition frame :: "step \<Rightarrow> bool" where
  "frame p = (\<forall>s. st (p s) = s)"

text \<open>The name of the method a call is made on, with the arguments left out.\<close>

fun method_name :: "sdk_call \<Rightarrow> string" where
  "method_name clearMapView = ''clearMapView''"
| "method_name (moveCamera cameraPosition) = ''moveCamera''"
| "method_name (addMarker options) = ''addMarker''"
| "method_name (setMyLocationEnabled b) = ''setMyLocationEnabled''"
| "method_name (removePolygon i) = ''removePolygon''"
| "method_name (removeCircle i) = ''removeCircle''"
| "method_name (removePolyline i) = ''removePolyline''"
| "method_name clearDestinations = ''clearDestinations''"
| "method_name cleanup = ''cleanup''"
| "method_name stopGuidance = ''stopGuidance''"
| "method_name continueToNextDestination = ''continueToNextDestination''"
| "method_name startGuidance = ''startGuidance''"
| "method_name (setDestinations ds opts) = ''setDestinations''"
| "method_name init = ''init''"
| "method_name getCurrentTimeAndDistance = ''getCurrentTimeAndDistance''"
| "method_name (setNavigationUIEnabled b) = ''setNavigationUIEnabled''"
| "method_name showRouteOverview = ''showRouteOverview''"

text \<open>
  The snackbar texts that report a failure are the ones the screens start with \<open>Error\<close>
  or \<open>Failed\<close>; a result surfaces an error when its trace shows such a snackbar.
\<close>

definition error_text :: "string \<Rightarrow> bool" where
  "error_text text = (take 5 text = ''Error'' \<or> take 6 text = ''Failed'')"

definition surfaces_error :: "result \<Rightarrow> bool" where
  "surfaces_error r = list_ex error_text (snackbars (trace r))"

text \<open>Three worlds: in each, the calls of one method reject and all others succeed.\<close>

definition moveCamera_rejects :: env where
  "moveCamera_rejects c = (case c of moveCamera cameraPosition \<Rightarrow> True | _ \<Rightarrow> False)"

definition setDestinations_rejects :: env where
  "setDestinations_rejects c = (case c of setDestinations ds opts \<Rightarrow> True | _ \<Rightarrow> False)"

definition init_rejects :: env where
  "init_rejects c = (case c of init \<Rightarrow> True | _ \<Rightarrow> False)"

text \<open>A step that shows no snackbar.\<close>

definition silent :: "step \<Rightarrow> bool" where
  "silent p = (\<forall>s. snackbars (trace (p s)) = [])"

section \<open>Properties\<close>

subsection \<open>The state after a callback\<close>

lemmas comb_defs = ret_def emit_def seq_def await_def fire_def nav_await_def nav_fire_def
  try_catch_def showSnackbar_def
  logs_def only_if_def detach_def setOverlayType_def setMapViewController_def
  setNavigationViewController_def setNavigationInitialized_def setDisplayMap_def setMargin_def
  Let_def

lemma frame_run: "(\<And>p. p \<in> set ps \<Longrightarrow> frame p) \<Longrightarrow> frame (run ps)"
proof (induction ps)
  case Nil
  show ?case by (simp add: frame_def ret_def)
next
  case (Cons p ps)
  have p: "frame p" and ps: "frame (run ps)" using Cons by simp_all
  show ?case unfolding frame_def
  proof
    fix s
    show "st (run (p # ps) s) = s"
      using p ps by (cases "outcome (p s)") (simp_all add: frame_def seq_def Let_def)
  qed
qed

lemma frame_await: "frame (await rejects c)"
  by (simp add: frame_def await_def)

lemma frame_only_if: "frame p \<Longrightarrow> frame (only_if b p)"
  by (simp add: frame_def only_if_def ret_def)

lemma st_createWayPoints: "st (createWayPoints rejects ws s) = s"
proof -
  have "frame (run (map (\<lambda>w. only_if b (await rejects (addMarker \<lparr> position = w, visible = True \<rparr>))) ws))" for b
    by (rule frame_run) (auto intro: frame_only_if frame_await)
  then show ?thesis by (simp add: createWayPoints_def frame_def)
qed

lemma st_moveCameraToStartingSpot: "st (moveCameraToStartingSpot rejects s) = s"
  by (simp add: moveCameraToStartingSpot_def comb_defs)

lemma st_moveCameraToStartingSpot_unnamed: "st (moveCameraToStartingSpot_unnamed rejects s) = s"
  by (simp add: moveCameraToStartingSpot_unnamed_def comb_defs)

lemma st_cleanUpNavigation: "st (cleanUpNavigation rejects h s) = s"
  by (simp add: cleanUpNavigation_def comb_defs)

lemma st_onNavigationReady: "st (onNavigationReady rejects h s) = s \<lparr> navigationInitialized := True \<rparr>"
  by (simp add: onNavigationReady_def comb_defs st_createWayPoints st_moveCameraToStartingSpot split: outcome.splits)

lemma st_onNavigationReady_unnamed: "st (onNavigationReady_unnamed rejects h s) = s \<lparr> navigationInitialized := True \<rparr>"
  by (simp add: onNavigationReady_unnamed_def comb_defs st_createWayPoints st_moveCameraToStartingSpot_unnamed split: outcome.splits)

lemma handle_state:
  "st (handle scr rejects h e s) =
     (case e of
        Focus \<Rightarrow> s \<lparr> displayMap := True \<rparr>
      | Blur \<Rightarrow> s \<lparr> displayMap := False \<rparr>
      | NavigationReady \<Rightarrow> s \<lparr> navigationInitialized := True \<rparr>
      | MapViewControllerCreated c \<Rightarrow> s \<lparr> mapViewController := Some c \<rparr>
      | NavigationViewControllerCreated c \<Rightarrow> s \<lparr> navigationViewController := Some c \<rparr>
      | ShowNavControlsClick \<Rightarrow> s \<lparr> overlayType := NavControls \<rparr>
      | ShowMapsControlsClick \<Rightarrow> s \<lparr> overlayType := MapControls \<rparr>
      | CloseOverlay \<Rightarrow> s \<lparr> overlayType := OverlayNone \<rparr>
      | MarginValueChange \<Rightarrow> s \<lparr> margin := (if truthy (margin s) then None else Some marginAmount) \<rparr>
      | NavigationDispose \<Rightarrow>
          (if navigationViewController s \<noteq> None \<and> rejects (setNavigationUIEnabled False)
           then s else s \<lparr> navigationInitialized := False \<rparr>)
      | _ \<Rightarrow> s)"
proof (cases e)
  case NavigationReady
  then show ?thesis by (cases scr) (simp_all add: st_onNavigationReady st_onNavigationReady_unnamed)
next
  case (RouteStatusResult rs)
  then show ?thesis
    by (cases scr; cases rs)
      (simp_all add: onRouteStatusOk_def onRouteStatusOk_unnamed_def onRouteCancelled_def
        onNoRouteFound_def onNetworkError_def onLocationDisabled_def onLocationUnknown_def
        onStartingGuidanceError_def st_moveCameraToStartingSpot comb_defs split: outcome.splits)
next
  case Blur
  then show ?thesis by (simp add: onBlur_def st_cleanUpNavigation comb_defs split: outcome.splits)
next
  case RecenterButtonClick
  then show ?thesis
    by (cases scr) (simp_all add: onRecenterButtonClick_def onRecenterButtonClick_unnamed_def
        st_moveCameraToStartingSpot comb_defs split: outcome.splits)
qed (simp_all add: onFocus_def onRouteChanged_def onArrival_def onNavigationInitError_def
      onLocationChanged_def onRawLocationChanged_def onTrafficUpdated_def onStartGuidance_def
      onRemainingTimeOrDistanceChanged_def onTurnByTurn_def onMapReady_def onMarkerClick_def
      onPolygonClick_def onCircleClick_def onPolylineClick_def onMarkerInfoWindowTapped_def
      onMapClick_def onShowNavControlsClick_def onShowMapsControlsClick_def closeOverlay_def
      onMarginValueChange_def onNavigationDispose_def comb_defs)


lemma run_events_Nil: "run_events scr h [] s = s"
  by (simp add: run_events_def)

lemma run_events_Cons:
  "run_events scr h (x # xs) s = run_events scr h xs (st (handle scr (fst x) h (snd x) s))"
  by (simp add: run_events_def step_state_def)

subsection \<open>Overlays\<close>

text \<open>
  Claim C1. At most one overlay is visible at a time, in every state and so after every
  history of events from the mount. The show-navigation-controls action sets the overlay
  state to \<open>NavControls\<close> and does nothing else, so the map-controls overlay is not visible
  after it; the show-maps-controls action sets it to \<open>MapControls\<close>, so the
  navigation-controls overlay is not visible after it; \<open>closeOverlay\<close> sets it to None,
  after which neither is visible.
\<close>

theorem overlay_mutually_exclusive:
  "\<not> (navControlsOverlayVisible h s \<and> mapControlsOverlayVisible h s) \<and>
   \<not> (navControlsOverlayVisible h (run_events scr h xs initial_state) \<and>
      mapControlsOverlayVisible h (run_events scr h xs initial_state)) \<and>
   handle scr rejects h ShowNavControlsClick s =
     \<lparr> st = s \<lparr> overlayType := NavControls \<rparr>, trace = [], outcome = Returned \<rparr> \<and>
   \<not> mapControlsOverlayVisible h (st (handle scr rejects h ShowNavControlsClick s)) \<and>
   handle scr rejects h ShowMapsControlsClick s =
     \<lparr> st = s \<lparr> overlayType := MapControls \<rparr>, trace = [], outcome = Returned \<rparr> \<and>
   \<not> navControlsOverlayVisible h (st (handle scr rejects h ShowMapsControlsClick s)) \<and>
   handle scr rejects h CloseOverlay s =
     \<lparr> st = s \<lparr> overlayType := OverlayNone \<rparr>, trace = [], outcome = Returned \<rparr> \<and>
   \<not> navControlsOverlayVisible h (st (handle scr rejects h CloseOverlay s)) \<and>
   \<not> mapControlsOverlayVisible h (st (handle scr rejects h CloseOverlay s))"
  by (auto simp add: navControlsOverlayVisible_def mapControlsOverlayVisible_def
      onShowNavControlsClick_def onShowMapsControlsClick_def closeOverlay_def
      setOverlayType_def ret_def)

subsection \<open>The margin switch\<close>

lemma margin_step:
  "margin s \<in> {None, Some 50} \<Longrightarrow> margin (st (handle scr rejects h e s)) \<in> {None, Some 50}"
  by (cases e) (auto simp add: handle_state marginAmount_def simp del: handle.simps)

lemma margin_run:
  "margin s \<in> {None, Some 50} \<Longrightarrow> margin (run_events scr h xs s) \<in> {None, Some 50}"
proof (induction xs arbitrary: s)
  case Nil
  then show ?case by (simp add: run_events_Nil)
next
  case (Cons x xs)
  show ?case
    unfolding run_events_Cons
    by (rule Cons.IH) (rule margin_step [OF Cons.prems])
qed

text \<open>
  Claim C7. A change of the margin switch sets the margin to null when it is truthy and to
  50 when it is null or otherwise falsy; two changes in a row give a margin of the
  truthiness of the first; and after every history of events from the mount the margin is
  null or 50.
\<close>

theorem margin_toggle:
  "(truthy (margin s) \<longrightarrow> margin (st (handle scr rejects h MarginValueChange s)) = None) \<and>
   (\<not> truthy (margin s) \<longrightarrow> margin (st (handle scr rejects h MarginValueChange s)) = Some 50) \<and>
   truthy (margin (st (handle scr rejects' h MarginValueChange
                        (st (handle scr rejects h MarginValueChange s))))) = truthy (margin s) \<and>
   margin (run_events scr h xs initial_state) \<in> {None, Some 50}"
proof -
  have "margin initial_state \<in> {None, Some 50}" by (simp add: initial_state_def)
  then have "margin (run_events scr h xs initial_state) \<in> {None, Some 50}" by (rule margin_run)
  then show ?thesis
    by (simp add: handle_state marginAmount_def del: handle.simps)
qed

theorem margin_toggle_witness:
  "\<not> truthy (margin initial_state) \<and>
   margin (st (handle ExampleScreen no_rejections
                 \<lparr> arePermissionsApproved = True, navigationController = Some 0 \<rparr>
                 MarginValueChange initial_state)) = Some 50 \<and>
   truthy (margin (initial_state \<lparr> margin := Some 50 \<rparr>)) \<and>
   margin (st (handle ExampleScreen no_rejections
                 \<lparr> arePermissionsApproved = True, navigationController = Some 0 \<rparr>
                 MarginValueChange (initial_state \<lparr> margin := Some 50 \<rparr>))) = None"
  using margin_toggle [of initial_state ExampleScreen no_rejections
          "\<lparr> arePermissionsApproved = True, navigationController = Some 0 \<rparr>" no_rejections "[]"]
        margin_toggle [of "initial_state \<lparr> margin := Some 50 \<rparr>" ExampleScreen no_rejections
          "\<lparr> arePermissionsApproved = True, navigationController = Some 0 \<rparr>" no_rejections "[]"]
  by (simp add: initial_state_def)


subsection \<open>Arrival\<close>

text \<open>
  On a null navigation controller the callback throws at its first call on it: no
  controller call is made and no snackbar is shown.
\<close>

lemma arrival_null_controller:
  "navigationController h = None \<Longrightarrow>
   outcome (handle scr rejects h (Arrival isFinalDestination) s) = TypeError \<and>
   sdk_calls (trace (handle scr rejects h (Arrival isFinalDestination) s)) = [] \<and>
   snackbars (trace (handle scr rejects h (Arrival isFinalDestination) s)) = []"
  by (simp add: onArrival_def comb_defs)

text \<open>
  Claim C9. With the navigation controller the hook gives being an object: on an arrival
  event whose \<open>isFinalDestination\<close> is true the callback's calls on the navigation
  controller are \<open>stopGuidance\<close> alone; when it is false they are
  \<open>continueToNextDestination\<close> and then \<open>startGuidance\<close>. In both cases it shows the one
  snackbar \<open>Arrived\<close>, changes no state and returns.
\<close>

theorem arrival_calls:
  "navigationController h \<noteq> None \<Longrightarrow>
   st (handle scr rejects h (Arrival isFinalDestination) s) = s \<and>
   outcome (handle scr rejects h (Arrival isFinalDestination) s) = Returned \<and>
   sdk_calls (trace (handle scr rejects h (Arrival isFinalDestination) s)) =
     (if isFinalDestination then [stopGuidance] else [continueToNextDestination, startGuidance]) \<and>
   snackbars (trace (handle scr rejects h (Arrival isFinalDestination) s)) = [''Arrived'']"
  by (auto simp add: onArrival_def comb_defs)

theorem arrival_calls_witness:
  "navigationController \<lparr> arePermissionsApproved = True, navigationController = Some 0 \<rparr> \<noteq> None \<and>
   sdk_calls (trace (handle ExampleScreen no_rejections
     \<lparr> arePermissionsApproved = True, navigationController = Some 0 \<rparr> (Arrival True)
     initial_state)) = [stopGuidance] \<and>
   sdk_calls (trace (handle UnnamedScreen no_rejections
     \<lparr> arePermissionsApproved = True, navigationController = Some 0 \<rparr> (Arrival False)
     initial_state)) = [continueToNextDestination, startGuidance] \<and>
   snackbars (trace (handle ExampleScreen no_rejections
     \<lparr> arePermissionsApproved = True, navigationController = Some 0 \<rparr> (Arrival True)
     initial_state)) = [''Arrived''] \<and>
   snackbars (trace (handle UnnamedScreen no_rejections
     \<lparr> arePermissionsApproved = True, navigationController = Some 0 \<rparr> (Arrival False)
     initial_state)) = [''Arrived'']"
  using arrival_calls [of "\<lparr> arePermissionsApproved = True, navigationController = Some 0 \<rparr>"
      ExampleScreen no_rejections True initial_state]
    arrival_calls [of "\<lparr> arePermissionsApproved = True, navigationController = Some 0 \<rparr>"
      UnnamedScreen no_rejections False initial_state]
  by simp

subsection \<open>Blur\<close>

text \<open>
  Claim C5, as stated, at a blur that follows a focus with no map view controller created
  in between (permissions not approved, so the view was never rendered), the navigation
  controller being an object: the cleanup makes no \<open>clearMapView\<close> call; its calls are
  \<open>clearDestinations\<close> and \<open>cleanup\<close>.
\<close>

theorem blur_counterexample:
  "displayMap (st (handle ExampleScreen no_rejections
                     \<lparr> arePermissionsApproved = False, navigationController = Some 0 \<rparr>
                     Focus initial_state)) \<and>
   sdk_calls (trace (handle ExampleScreen no_rejections
                       \<lparr> arePermissionsApproved = False, navigationController = Some 0 \<rparr> Blur
                       (st (handle ExampleScreen no_rejections
                              \<lparr> arePermissionsApproved = False, navigationController = Some 0 \<rparr>
                              Focus initial_state)))) = [clearDestinations, cleanup] \<and>
   clearMapView \<notin> set (sdk_calls (trace (handle ExampleScreen no_rejections
                       \<lparr> arePermissionsApproved = False, navigationController = Some 0 \<rparr> Blur
                       (st (handle ExampleScreen no_rejections
                              \<lparr> arePermissionsApproved = False, navigationController = Some 0 \<rparr>
                              Focus initial_state)))))"
  by (simp add: onFocus_def onBlur_def cleanUpNavigation_def initial_state_def no_rejections_def
      comb_defs)

text \<open>
  On a null navigation controller \<open>cleanUpNavigation\<close> throws at \<open>clearDestinations\<close>:
  neither that call nor \<open>cleanup\<close> is made.
\<close>

lemma blur_null_controller:
  "navigationController h = None \<Longrightarrow>
   outcome (handle scr rejects h Blur s) = TypeError \<and>
   sdk_calls (trace (handle scr rejects h Blur s)) =
     (if mapViewController s \<noteq> None then [clearMapView] else [])"
  by (simp add: onBlur_def cleanUpNavigation_def comb_defs)

text \<open>
  The navigation object holds no blur listener of the screen, or the one listener whose
  unsubscribing is the cleanup in force.
\<close>

lemma blur_deliveries_latest:
  "(reg = [] \<and> pending = []) \<or> (reg = [l0] \<and> pending = [unsubscribe l0]) \<Longrightarrow>
   blur_deliveries reg pending (es @ [EffectRuns l, BlurEmitted]) =
     blur_deliveries reg pending es @ [[l]]"
proof (induction es arbitrary: reg pending l0)
  case Nil
  then show ?case by (auto simp add: focusEffect_def)
next
  case (Cons e es)
  show ?case
  proof (cases e)
    case (EffectRuns l')
    have "blur_deliveries [l'] [unsubscribe l'] (es @ [EffectRuns l, BlurEmitted]) =
      blur_deliveries [l'] [unsubscribe l'] es @ [[l]]"
      by (rule Cons.IH [of _ _ l']) simp
    then show ?thesis using Cons.prems EffectRuns by (auto simp add: focusEffect_def)
  next
    case BlurEmitted
    have "blur_deliveries [] [] (es @ [EffectRuns l, BlurEmitted]) =
      blur_deliveries [] [] es @ [[l]]"
      by (rule Cons.IH [of _ _ l0]) simp
    then show ?thesis using Cons.prems BlurEmitted by auto
  qed
qed

lemma blur_deliveries_at_most_one:
  "(reg = [] \<and> pending = []) \<or> (reg = [l0] \<and> pending = [unsubscribe l0]) \<Longrightarrow>
   list_all (\<lambda>ds. length ds \<le> 1) (blur_deliveries reg pending es)"
proof (induction es arbitrary: reg pending l0)
  case Nil
  show ?case by simp
next
  case (Cons e es)
  show ?case
  proof (cases e)
    case (EffectRuns l')
    have "list_all (\<lambda>ds. length ds \<le> 1) (blur_deliveries [l'] [unsubscribe l'] es)"
      by (rule Cons.IH [of _ _ l']) simp
    then show ?thesis using Cons.prems EffectRuns by (auto simp add: focusEffect_def)
  next
    case BlurEmitted
    have "list_all (\<lambda>ds. length ds \<le> 1) (blur_deliveries [] [] es)"
      by (rule Cons.IH [of _ _ l0]) simp
    then show ?thesis using Cons.prems BlurEmitted by auto
  qed
qed

text \<open>
  Claim C5, amended. The blur listener sets \<open>displayMap\<close> to false and changes no other
  cell, and what it does besides is one run of \<open>cleanUpNavigation\<close>. With the navigation
  controller the hook gives being an object, that run calls \<open>clearMapView\<close> when a map
  view controller is held and not otherwise, then \<open>clearDestinations\<close>, then \<open>cleanup\<close>
  unless the awaited \<open>clearDestinations\<close> rejected; so \<open>clearDestinations\<close> is called
  exactly once per run of the listener. And the listener runs once per blur: over every
  history of runs of the focus effect and blur emissions since the mount, a blur that
  follows a run of the effect is delivered to the listener that run registered and to no
  other, and no blur is delivered to more than one listener.
\<close>

theorem blur_cleanup:
  "st (handle scr rejects h Blur s) = s \<lparr> displayMap := False \<rparr> \<and>
   trace (handle scr rejects h Blur s) = trace (cleanUpNavigation rejects h s) \<and>
   (navigationController h \<noteq> None \<longrightarrow>
      sdk_calls (trace (cleanUpNavigation rejects h s)) =
        (if mapViewController s \<noteq> None then [clearMapView] else []) @
        [clearDestinations] @
        (if rejects clearDestinations then [] else [cleanup]) \<and>
      count_list (sdk_calls (trace (handle scr rejects h Blur s))) clearDestinations = 1) \<and>
   blur_deliveries [] [] (es @ [EffectRuns l, BlurEmitted]) = blur_deliveries [] [] es @ [[l]] \<and>
   list_all (\<lambda>ds. length ds \<le> 1) (blur_deliveries [] [] es)"
proof -
  have "blur_deliveries [] [] (es @ [EffectRuns l, BlurEmitted]) = blur_deliveries [] [] es @ [[l]]"
    by (rule blur_deliveries_latest [of _ _ l]) simp
  moreover have "list_all (\<lambda>ds. length ds \<le> 1) (blur_deliveries [] [] es)"
    by (rule blur_deliveries_at_most_one [of _ _ l]) simp
  ultimately show ?thesis
    by (simp add: onBlur_def cleanUpNavigation_def comb_defs)
qed

theorem blur_cleanup_witness:
  "navigationController \<lparr> arePermissionsApproved = True, navigationController = Some 0 \<rparr> \<noteq> None \<and>
   sdk_calls (trace (handle ExampleScreen no_rejections
     \<lparr> arePermissionsApproved = True, navigationController = Some 0 \<rparr> Blur
     (run_events ExampleScreen \<lparr> arePermissionsApproved = True, navigationController = Some 0 \<rparr>
        [(no_rejections, Focus), (no_rejections, MapViewControllerCreated 1)] initial_state))) =
     [clearMapView, clearDestinations, cleanup] \<and>
   displayMap (run_events ExampleScreen
        \<lparr> arePermissionsApproved = True, navigationController = Some 0 \<rparr>
        [(no_rejections, Focus), (no_rejections, MapViewControllerCreated 1)] initial_state) \<and>
   \<not> displayMap (st (handle ExampleScreen no_rejections
     \<lparr> arePermissionsApproved = True, navigationController = Some 0 \<rparr> Blur
     (run_events ExampleScreen \<lparr> arePermissionsApproved = True, navigationController = Some 0 \<rparr>
        [(no_rejections, Focus), (no_rejections, MapViewControllerCreated 1)] initial_state))) \<and>
   blur_deliveries [] [] [EffectRuns (1::nat), EffectRuns 2, BlurEmitted, EffectRuns 3, BlurEmitted] =
     [[2], [3]]"
  using blur_cleanup [of ExampleScreen no_rejections
      "\<lparr> arePermissionsApproved = True, navigationController = Some 0 \<rparr>"
      "run_events ExampleScreen \<lparr> arePermissionsApproved = True, navigationController = Some 0 \<rparr>
        [(no_rejections, Focus), (no_rejections, MapViewControllerCreated 1)] initial_state"
      "[EffectRuns (1::nat), EffectRuns 2, BlurEmitted]" 3]
  by (simp add: run_events_def step_state_def onFocus_def onBlur_def cleanUpNavigation_def
      setMapViewController_def focusEffect_def no_rejections_def initial_state_def comb_defs)

subsection \<open>Controller handles\<close>

lemma handle_keeps_handles:
  "(mapViewController s \<noteq> None \<longrightarrow> mapViewController (st (handle scr rejects h e s)) \<noteq> None) \<and>
   (navigationViewController s \<noteq> None \<longrightarrow>
      navigationViewController (st (handle scr rejects h e s)) \<noteq> None)"
  by (cases e) (simp_all add: handle_state del: handle.simps)

lemma run_events_keeps_handles:
  "(mapViewController s \<noteq> None \<longrightarrow> mapViewController (run_events scr h xs s) \<noteq> None) \<and>
   (navigationViewController s \<noteq> None \<longrightarrow>
      navigationViewController (run_events scr h xs s) \<noteq> None)"
proof (induction xs arbitrary: s)
  case Nil
  show ?case by (simp add: run_events_Nil)
next
  case (Cons x xs)
  show ?case
    unfolding run_events_Cons
    using Cons.IH [of "st (handle scr (fst x) h (snd x) s)"]
      handle_keeps_handles [of s scr "fst x" h "snd x"]
    by blast
qed

text \<open>
  Claim C6. Both controller handles are null at mount. The map-view-controller-created
  callback sets \<open>mapViewController\<close> to the controller it is given, and the
  navigation-view-controller-created callback does the same for
  \<open>navigationViewController\<close>. From a state where a handle is non-null, it is non-null
  after every history of events of the mount.
\<close>

theorem handles_never_revert:
  "mapViewController initial_state = None \<and>
   navigationViewController initial_state = None \<and>
   mapViewController (st (handle scr rejects h (MapViewControllerCreated c) s)) = Some c \<and>
   navigationViewController (st (handle scr rejects h (NavigationViewControllerCreated c) s)) = Some c \<and>
   (mapViewController s \<noteq> None \<longrightarrow> mapViewController (run_events scr h xs s) \<noteq> None) \<and>
   (navigationViewController s \<noteq> None \<longrightarrow>
      navigationViewController (run_events scr h xs s) \<noteq> None)"
  using run_events_keeps_handles [of s scr h xs]
  by (simp add: initial_state_def setMapViewController_def setNavigationViewController_def ret_def)

theorem handles_never_revert_witness:
  "mapViewController
     (st (handle ExampleScreen no_rejections
            \<lparr> arePermissionsApproved = True, navigationController = Some 0 \<rparr>
            (MapViewControllerCreated 7) initial_state)) \<noteq> None \<and>
   mapViewController
     (run_events ExampleScreen \<lparr> arePermissionsApproved = True, navigationController = Some 0 \<rparr>
        [(no_rejections, Blur), (no_rejections, NavigationDispose), (no_rejections, CloseOverlay)]
        (st (handle ExampleScreen no_rejections
               \<lparr> arePermissionsApproved = True, navigationController = Some 0 \<rparr>
               (MapViewControllerCreated 7) initial_state))) \<noteq> None \<and>
   navigationViewController
     (st (handle UnnamedScreen no_rejections
            \<lparr> arePermissionsApproved = True, navigationController = Some 0 \<rparr>
            (NavigationViewControllerCreated 8) initial_state)) \<noteq> None \<and>
   navigationViewController
     (run_events UnnamedScreen \<lparr> arePermissionsApproved = True, navigationController = Some 0 \<rparr>
        [(no_rejections, NavigationReady), (no_rejections, NavigationDispose), (no_rejections, Blur)]
        (st (handle UnnamedScreen no_rejections
               \<lparr> arePermissionsApproved = True, navigationController = Some 0 \<rparr>
               (NavigationViewControllerCreated 8) initial_state))) \<noteq> None"
  using handles_never_revert [of ExampleScreen no_rejections
      "\<lparr> arePermissionsApproved = True, navigationController = Some 0 \<rparr>" 7
      "st (handle ExampleScreen no_rejections
               \<lparr> arePermissionsApproved = True, navigationController = Some 0 \<rparr>
               (MapViewControllerCreated 7) initial_state)"
      "[(no_rejections, Blur), (no_rejections, NavigationDispose), (no_rejections, CloseOverlay)]"]
    handles_never_revert [of UnnamedScreen no_rejections
      "\<lparr> arePermissionsApproved = True, navigationController = Some 0 \<rparr>" 8
      "st (handle UnnamedScreen no_rejections
               \<lparr> arePermissionsApproved = True, navigationController = Some 0 \<rparr>
               (NavigationViewControllerCreated 8) initial_state)"
      "[(no_rejections, NavigationReady), (no_rejections, NavigationDispose), (no_rejections, Blur)]"]
  by (simp add: setMapViewController_def setNavigationViewController_def ret_def)


subsection \<open>The navigation-controls overlay and its button\<close>

lemma not_ready_step:
  "e \<noteq> NavigationReady \<Longrightarrow> \<not> navigationInitialized s \<Longrightarrow>
   \<not> navigationInitialized (st (handle scr rejects h e s))"
  by (cases e) (simp_all add: handle_state del: handle.simps)

lemma not_ready_run:
  "\<forall>x \<in> set xs. snd x \<noteq> NavigationReady \<Longrightarrow> \<not> navigationInitialized s \<Longrightarrow>
   \<not> navigationInitialized (run_events scr h xs s)"
proof (induction xs arbitrary: s)
  case Nil
  then show ?case by (simp add: run_events_Nil)
next
  case (Cons x xs)
  have "\<not> navigationInitialized (st (handle scr (fst x) h (snd x) s))"
    using Cons.prems by (intro not_ready_step) simp_all
  moreover have "\<forall>y \<in> set xs. snd y \<noteq> NavigationReady" using Cons.prems by simp
  ultimately show ?case
    unfolding run_events_Cons by (rule Cons.IH [rotated])
qed

text \<open>
  Claim C10. The navigation-controls overlay is an element of the view only when the
  navigation view controller is non-null, the navigation controller is non-null and
  \<open>navigationInitialized\<close> is true. The Navigation button is disabled exactly when
  \<open>navigationInitialized\<close> is false. So while the flag is false the overlay is neither
  rendered nor visible even with the overlay state \<open>NavControls\<close>: this is the case after
  every history from the mount in which the navigation-ready callback has not fired, and
  after an \<open>onNavigationDispose\<close> that returned.
\<close>

theorem nav_controls_gated:
  "(navControlsOverlayRendered h s \<longrightarrow>
      navigationViewController s \<noteq> None \<and> navigationController h \<noteq> None \<and>
      navigationInitialized s) \<and>
   navigationButtonDisabled s = (\<not> navigationInitialized s) \<and>
   (\<not> navigationInitialized s \<longrightarrow>
      \<not> navControlsOverlayRendered h (s \<lparr> overlayType := NavControls \<rparr>) \<and>
      \<not> navControlsOverlayVisible h (s \<lparr> overlayType := NavControls \<rparr>)) \<and>
   ((\<forall>x \<in> set xs. snd x \<noteq> NavigationReady) \<longrightarrow>
      navigationButtonDisabled (run_events scr h xs initial_state) \<and>
      \<not> navControlsOverlayVisible h
          ((run_events scr h xs initial_state) \<lparr> overlayType := NavControls \<rparr>)) \<and>
   (outcome (handle scr rejects h NavigationDispose s) = Returned \<longrightarrow>
      navigationButtonDisabled (st (handle scr rejects h NavigationDispose s)) \<and>
      \<not> navControlsOverlayVisible h
          ((st (handle scr rejects h NavigationDispose s)) \<lparr> overlayType := NavControls \<rparr>))"
proof -
  have "\<not> navigationInitialized (run_events scr h xs initial_state)"
    if "\<forall>x \<in> set xs. snd x \<noteq> NavigationReady"
    using that by (rule not_ready_run) (simp add: initial_state_def)
  moreover have "\<not> navigationInitialized (st (handle scr rejects h NavigationDispose s))"
    if "outcome (handle scr rejects h NavigationDispose s) = Returned"
    using that by (simp add: onNavigationDispose_def comb_defs split: if_splits)
  ultimately show ?thesis
    by (auto simp add: navControlsOverlayRendered_def navControlsOverlayVisible_def
        navigationButtonDisabled_def simp del: handle.simps)
qed

theorem nav_controls_gated_witness:
  "navControlsOverlayRendered \<lparr> arePermissionsApproved = True, navigationController = Some 0 \<rparr>
     \<lparr> overlayType = NavControls, mapViewController = Some 1, navigationViewController = Some 2,
       navigationInitialized = True, displayMap = True, margin = None \<rparr> \<and>
   \<not> navigationInitialized initial_state \<and>
   \<not> navControlsOverlayVisible \<lparr> arePermissionsApproved = True, navigationController = Some 0 \<rparr>
       (initial_state \<lparr> overlayType := NavControls \<rparr>) \<and>
   navigationButtonDisabled
     (run_events ExampleScreen \<lparr> arePermissionsApproved = True, navigationController = Some 0 \<rparr>
        [(no_rejections, Focus), (no_rejections, NavigationViewControllerCreated 2),
         (no_rejections, ShowNavControlsClick)] initial_state) \<and>
   outcome (handle ExampleScreen no_rejections
              \<lparr> arePermissionsApproved = True, navigationController = Some 0 \<rparr> NavigationDispose
              \<lparr> overlayType = NavControls, mapViewController = Some 1,
                navigationViewController = Some 2, navigationInitialized = True,
                displayMap = True, margin = None \<rparr>) = Returned \<and>
   navigationButtonDisabled
     (st (handle ExampleScreen no_rejections
            \<lparr> arePermissionsApproved = True, navigationController = Some 0 \<rparr> NavigationDispose
            \<lparr> overlayType = NavControls, mapViewController = Some 1,
              navigationViewController = Some 2, navigationInitialized = True,
              displayMap = True, margin = None \<rparr>))"
  using nav_controls_gated [of "\<lparr> arePermissionsApproved = True, navigationController = Some 0 \<rparr>"
      "\<lparr> overlayType = NavControls, mapViewController = Some 1, navigationViewController = Some 2,
        navigationInitialized = True, displayMap = True, margin = None \<rparr>"
      "[(no_rejections, Focus), (no_rejections, NavigationViewControllerCreated 2),
        (no_rejections, ShowNavControlsClick)]" ExampleScreen no_rejections]
    nav_controls_gated [of "\<lparr> arePermissionsApproved = True, navigationController = Some 0 \<rparr>"
      initial_state "[]" ExampleScreen no_rejections]
  by (simp add: navControlsOverlayRendered_def viewRendered_def initial_state_def
      onNavigationDispose_def no_rejections_def comb_defs)

subsection \<open>Registration round trip\<close>

lemma useEffect_renders_in_force:
  "addListeners t0 #
   fst (useEffect_renders (Some (t0, [removeListeners t0])) ts) @
   (case snd (useEffect_renders (Some (t0, [removeListeners t0])) ts) of
      None \<Rightarrow> [] | Some (t, teardown) \<Rightarrow> teardown) =
   concat (map (\<lambda>t. [addListeners t, removeListeners t]) (remdups_adj (t0 # ts)))"
proof (induction ts arbitrary: t0)
  case Nil
  show ?case by simp
next
  case (Cons a ts)
  show ?case
  proof (cases "a = t0")
    case True
    then show ?thesis using Cons.IH [of t0] by simp
  next
    case False
    then show ?thesis using Cons.IH [of a] by (simp add: listenersEffect_def split_beta)
  qed
qed

lemma registered_pairs:
  "registered (concat (map (\<lambda>t. [addListeners t, removeListeners t]) ts)) [] = []"
  by (induction ts) simp_all

text \<open>
  Claim C8. The effect registers the table \<open>navigationCallbacks\<close> with \<open>addListeners\<close> and
  its cleanup deregisters the same table with \<open>removeListeners\<close>; after setup and cleanup
  an event source that held nothing holds nothing. Over the renders of a mount, each
  table that comes into force is added once and removed once, the removal following the
  addition, and after unmount nothing stays registered.
\<close>

theorem listeners_round_trip:
  "listenersEffect t = ([addListeners t], [removeListeners t]) \<and>
   registered (fst (listenersEffect t) @ snd (listenersEffect t)) [] = [] \<and>
   mount_to_unmount ts =
     concat (map (\<lambda>t. [addListeners t, removeListeners t]) (remdups_adj ts)) \<and>
   registered (mount_to_unmount ts) [] = []"
proof -
  have m: "mount_to_unmount ts =
     concat (map (\<lambda>t. [addListeners t, removeListeners t]) (remdups_adj ts))"
  proof (cases ts)
    case Nil
    then show ?thesis by (simp add: mount_to_unmount_def)
  next
    case (Cons t0 ts')
    then show ?thesis
      using useEffect_renders_in_force [of t0 ts']
      by (simp add: mount_to_unmount_def listenersEffect_def split_beta)
  qed
  show ?thesis
    unfolding m by (simp add: listenersEffect_def registered_pairs)
qed

subsection \<open>Failures\<close>

lemma snackbars_append: "snackbars (xs @ ys) = snackbars xs @ snackbars ys"
  by (induction xs rule: snackbars.induct) simp_all

lemma silent_run: "(\<And>p. p \<in> set ps \<Longrightarrow> silent p) \<Longrightarrow> silent (run ps)"
proof (induction ps)
  case Nil
  show ?case by (simp add: silent_def ret_def)
next
  case (Cons p ps)
  have p: "silent p" and ps: "silent (run ps)" using Cons by simp_all
  show ?case unfolding silent_def
  proof
    fix s
    show "snackbars (trace (run (p # ps) s)) = []"
      using p ps
      by (cases "outcome (p s)") (simp_all add: silent_def seq_def Let_def snackbars_append)
  qed
qed

lemma silent_createWayPoints: "snackbars (trace (createWayPoints rejects ws s)) = []"
proof -
  have "silent (run (map (\<lambda>w. only_if b (await rejects (addMarker \<lparr> position = w, visible = True \<rparr>))) ws))" for b
    by (rule silent_run) (auto simp add: silent_def only_if_def await_def ret_def)
  then show ?thesis by (simp add: createWayPoints_def silent_def)
qed

lemma snackbars_moveCameraToStartingSpot:
  "snackbars (trace (moveCameraToStartingSpot rejects s)) =
     (if mapViewController s \<noteq> None \<and>
         rejects (moveCamera \<lparr> target = \<lparr> lat = 32.8271135, lng = - 96.830288 \<rparr>,
                               zoom = 10, bearing = 0, tilt = Some 0 \<rparr>)
      then [''Error moving camera''] else [])"
  by (simp add: moveCameraToStartingSpot_def comb_defs)

lemma outcome_moveCameraToStartingSpot:
  "outcome (moveCameraToStartingSpot rejects s) = Returned"
  by (simp add: moveCameraToStartingSpot_def comb_defs)

lemma snackbars_onNavigationReady:
  "snackbars (trace (onNavigationReady rejects h s)) =
     (if mapViewController s \<noteq> None \<and>
         rejects (moveCamera \<lparr> target = \<lparr> lat = 32.8271135, lng = - 96.830288 \<rparr>,
                               zoom = 10, bearing = 0, tilt = Some 0 \<rparr>)
      then [''Error moving camera''] else []) @
     (if navigationController h = None \<or>
         rejects (setDestinations (destinations_of wayPoints) (Some routingOptions))
      then [''Error setting destinations''] else [])"
  by (simp add: onNavigationReady_def seq_def Let_def snackbars_append nav_await_def
      outcome_moveCameraToStartingSpot snackbars_moveCameraToStartingSpot
      st_moveCameraToStartingSpot silent_createWayPoints logs_def emit_def
      setNavigationInitialized_def ret_def try_catch_def await_def showSnackbar_def
      split: outcome.splits)

lemma snackbars_onNavigationReady_unnamed:
  "snackbars (trace (onNavigationReady_unnamed rejects h s)) = []"
  by (simp add: onNavigationReady_unnamed_def moveCameraToStartingSpot_unnamed_def seq_def
      nav_fire_def
      Let_def snackbars_append silent_createWayPoints st_createWayPoints logs_def emit_def
      fire_def only_if_def setNavigationInitialized_def ret_def await_def
      split: outcome.splits)

text \<open>
  On a null navigation controller the calls of \<open>init\<close> and \<open>setDestinations\<close> throw inside
  their \<open>try\<close> blocks: the catch shows the error snackbar though nothing rejected, and no
  call reaches the SDK. In the second screen \<open>setDestinations\<close> stands outside any \<open>try\<close>
  and the exception leaves \<open>onNavigationReady\<close>.
\<close>

lemma null_controller_failures:
  "navigationController h = None \<Longrightarrow>
   snackbars (trace (handle scr no_rejections h MapReady s)) = [''Error initializing navigator''] \<and>
   sdk_calls (trace (handle scr no_rejections h MapReady s)) = [] \<and>
   outcome (handle scr no_rejections h MapReady s) = Returned \<and>
   snackbars (trace (handle ExampleScreen no_rejections h NavigationReady s)) =
     [''Error setting destinations''] \<and>
   outcome (handle UnnamedScreen no_rejections h NavigationReady s) = TypeError"
  by (simp add: onMapReady_def snackbars_onNavigationReady onNavigationReady_unnamed_def
      moveCameraToStartingSpot_unnamed_def no_rejections_def comb_defs)

lemmas route_status_defs = onRouteStatusOk_def onRouteStatusOk_unnamed_def onRouteCancelled_def
  onNoRouteFound_def onNetworkError_def onLocationDisabled_def onLocationUnknown_def
  onStartingGuidanceError_def

lemma errors_closed:
  "surfaces_error (handle scr rejects h e s) \<Longrightarrow>
     (\<exists>routeStatus. e = RouteStatusResult routeStatus \<and> routeStatus \<noteq> OK) \<or>
     (\<exists>errorCode. e = NavigationInitError errorCode) \<or>
     (e = MapReady \<and> (rejects init \<or> navigationController h = None)) \<or>
     (scr = ExampleScreen \<and>
      (e = NavigationReady \<or> e = RouteStatusResult OK \<or> e = RecenterButtonClick) \<and>
      mapViewController s \<noteq> None \<and> (\<exists>cameraPosition. rejects (moveCamera cameraPosition))) \<or>
     (scr = ExampleScreen \<and> e = NavigationReady \<and>
      ((\<exists>destinations options. rejects (setDestinations destinations options)) \<or>
       navigationController h = None))"
proof (cases e)
  case NavigationReady
  assume "surfaces_error (handle scr rejects h e s)"
  then show ?thesis using NavigationReady
    by (cases scr) (auto simp add: surfaces_error_def snackbars_onNavigationReady
        snackbars_onNavigationReady_unnamed split: if_splits)
next
  case (RouteStatusResult rs)
  assume "surfaces_error (handle scr rejects h e s)"
  then show ?thesis using RouteStatusResult
    by (cases scr; cases rs) (auto simp add: surfaces_error_def error_text_def route_status_defs
        snackbars_moveCameraToStartingSpot comb_defs snackbars_append split: if_splits outcome.splits)
next
  case RecenterButtonClick
  assume "surfaces_error (handle scr rejects h e s)"
  then show ?thesis using RecenterButtonClick
    by (cases scr) (auto simp add: surfaces_error_def error_text_def onRecenterButtonClick_def
        onRecenterButtonClick_unnamed_def snackbars_moveCameraToStartingSpot seq_def Let_def
        logs_def emit_def ret_def snackbars_append split: if_splits outcome.splits)
next
  case MapReady
  assume "surfaces_error (handle scr rejects h e s)"
  then show ?thesis using MapReady
    by (auto simp add: surfaces_error_def error_text_def onMapReady_def comb_defs split: if_splits)
next
  case Blur
  assume "surfaces_error (handle scr rejects h e s)"
  then show ?thesis using Blur
    by (auto simp add: surfaces_error_def onBlur_def cleanUpNavigation_def comb_defs split: if_splits)
qed (auto simp add: surfaces_error_def error_text_def onFocus_def onRouteChanged_def onArrival_def
      onNavigationInitError_def
      onLocationChanged_def onRawLocationChanged_def onTrafficUpdated_def onStartGuidance_def
      onRemainingTimeOrDistanceChanged_def onTurnByTurn_def onMarkerClick_def
      onPolygonClick_def onCircleClick_def onPolylineClick_def onMarkerInfoWindowTapped_def
      onMapClick_def onShowNavControlsClick_def onShowMapsControlsClick_def closeOverlay_def
      onMarginValueChange_def onNavigationDispose_def comb_defs split: if_splits)


text \<open>
  Claim C2, as stated, at a route status outside the five failure codes and other than
  \<open>OK\<close> (written here with the name \<open>QUOTA_CHECK_FAILED\<close>): the \<open>default\<close> arm of the switch
  handles it as an error too, with the snackbar \<open>Error: Starting Guidance Error\<close>. The
  five codes are not the only route statuses the screen handles as errors.
\<close>

theorem route_status_counterexample:
  "surfaces_error
     (handle ExampleScreen no_rejections
        \<lparr> arePermissionsApproved = True, navigationController = Some 0 \<rparr>
        (RouteStatusResult (OtherStatus ''QUOTA_CHECK_FAILED'')) initial_state) \<and>
   snackbars (trace
     (handle ExampleScreen no_rejections
        \<lparr> arePermissionsApproved = True, navigationController = Some 0 \<rparr>
        (RouteStatusResult (OtherStatus ''QUOTA_CHECK_FAILED'')) initial_state)) =
     [''Error: Starting Guidance Error''] \<and>
   OtherStatus ''QUOTA_CHECK_FAILED'' \<notin>
     {ROUTE_CANCELED, NO_ROUTE_FOUND, NETWORK_ERROR, LOCATION_DISABLED, LOCATION_UNKNOWN}"
  by (simp add: surfaces_error_def error_text_def onStartingGuidanceError_def comb_defs)

text \<open>
  Claim C2, amended. For each of \<open>ROUTE_CANCELED\<close>, \<open>NO_ROUTE_FOUND\<close>, \<open>NETWORK_ERROR\<close>,
  \<open>LOCATION_DISABLED\<close> and \<open>LOCATION_UNKNOWN\<close>, in both screens, \<open>onRouteStatusResult\<close> shows
  exactly one snackbar, whose text names the error, makes no controller call, changes no
  state and returns. Every status that is none of these and not \<open>OK\<close> is handled in the
  same form by the \<open>default\<close> arm: one console line and the one snackbar
  \<open>Error: Starting Guidance Error\<close>. And a callback shows an error snackbar only for a
  route status other than \<open>OK\<close>, for a reported initialization error, for a failed
  \<open>init\<close>, for a rejected \<open>moveCamera\<close> (in a callback that moves the camera to the
  starting spot, with a map view controller held), or for a failed \<open>setDestinations\<close>;
  \<open>init\<close> and \<open>setDestinations\<close> fail when the call rejects and when the navigation
  controller is null, so that the call throws inside its \<open>try\<close> block.
\<close>

theorem route_status_failures:
  "handle scr rejects h (RouteStatusResult ROUTE_CANCELED) s =
     \<lparr> st = s, trace = [Snackbar_show ''Error: Route Cancelled'' LENGTH_SHORT],
       outcome = Returned \<rparr> \<and>
   handle scr rejects h (RouteStatusResult NO_ROUTE_FOUND) s =
     \<lparr> st = s, trace = [Snackbar_show ''Error: No Route Found'' LENGTH_SHORT],
       outcome = Returned \<rparr> \<and>
   handle scr rejects h (RouteStatusResult NETWORK_ERROR) s =
     \<lparr> st = s, trace = [Snackbar_show ''Error: Network Error'' LENGTH_SHORT],
       outcome = Returned \<rparr> \<and>
   handle scr rejects h (RouteStatusResult LOCATION_DISABLED) s =
     \<lparr> st = s, trace = [Snackbar_show ''Error: Location Disabled'' LENGTH_SHORT],
       outcome = Returned \<rparr> \<and>
   handle scr rejects h (RouteStatusResult LOCATION_UNKNOWN) s =
     \<lparr> st = s, trace = [Snackbar_show ''Error: Location Unknown'' LENGTH_SHORT],
       outcome = Returned \<rparr> \<and>
   handle scr rejects h (RouteStatusResult (OtherStatus routeStatus)) s =
     \<lparr> st = s,
       trace = [console_log (''routeStatus: '' @ routeStatus),
                Snackbar_show ''Error: Starting Guidance Error'' LENGTH_SHORT],
       outcome = Returned \<rparr> \<and>
   (surfaces_error (handle scr rejects h e s) \<longrightarrow>
      (\<exists>routeStatus. e = RouteStatusResult routeStatus \<and> routeStatus \<noteq> OK) \<or>
      (\<exists>errorCode. e = NavigationInitError errorCode) \<or>
      (e = MapReady \<and> (rejects init \<or> navigationController h = None)) \<or>
      ((e = NavigationReady \<or> e = RouteStatusResult OK \<or> e = RecenterButtonClick) \<and>
       mapViewController s \<noteq> None \<and> (\<exists>cameraPosition. rejects (moveCamera cameraPosition))) \<or>
      (e = NavigationReady \<and>
       ((\<exists>destinations options. rejects (setDestinations destinations options)) \<or>
        navigationController h = None)))"
proof -
  have "surfaces_error (handle scr rejects h e s) \<longrightarrow>
      (\<exists>routeStatus. e = RouteStatusResult routeStatus \<and> routeStatus \<noteq> OK) \<or>
      (\<exists>errorCode. e = NavigationInitError errorCode) \<or>
      (e = MapReady \<and> (rejects init \<or> navigationController h = None)) \<or>
      ((e = NavigationReady \<or> e = RouteStatusResult OK \<or> e = RecenterButtonClick) \<and>
       mapViewController s \<noteq> None \<and> (\<exists>cameraPosition. rejects (moveCamera cameraPosition))) \<or>
      (e = NavigationReady \<and>
       ((\<exists>destinations options. rejects (setDestinations destinations options)) \<or>
        navigationController h = None))"
    using errors_closed [of scr rejects h e s] by (cases scr) auto
  then show ?thesis
    by (simp add: route_status_defs comb_defs del: handle.simps add: handle.simps(11))
qed

theorem route_status_failures_witness:
  "surfaces_error
     (handle ExampleScreen init_rejects
        \<lparr> arePermissionsApproved = True, navigationController = Some 0 \<rparr> MapReady initial_state) \<and>
   init_rejects init \<and>
   snackbars (trace
     (handle ExampleScreen init_rejects
        \<lparr> arePermissionsApproved = True, navigationController = Some 0 \<rparr> MapReady initial_state)) =
     [''Error initializing navigator'']"
  using route_status_failures [of ExampleScreen init_rejects
      "\<lparr> arePermissionsApproved = True, navigationController = Some 0 \<rparr>" initial_state
      "''X''" MapReady]
  by (simp add: surfaces_error_def error_text_def onMapReady_def init_rejects_def
      initial_state_def comb_defs)

text \<open>
  Claim C4 fails on the second screen. There \<open>moveCameraToStartingSpot\<close> awaits
  \<open>moveCamera\<close> outside any \<open>try\<close>: when the call rejects, the exception leaves
  \<open>onNavigationReady\<close> after the console line and the call, and no snackbar is shown.
  \<open>setDestinations\<close> is called there with no \<open>await\<close>: when it rejects, the callback
  returns as if nothing had happened, after the console line and the call (no map view
  controller or navigation view controller being held), and no snackbar is shown. The
  example screen, in the same two worlds, shows \<open>Error moving camera\<close> and
  \<open>Error setting destinations\<close>.
\<close>

theorem unnamed_failures_escape:
  "outcome (handle UnnamedScreen moveCamera_rejects
              \<lparr> arePermissionsApproved = True, navigationController = Some 0 \<rparr> NavigationReady
              (initial_state \<lparr> mapViewController := Some 0 \<rparr>)) =
     Threw (moveCamera \<lparr> target = \<lparr> lat = 42.060047, lng = - 87.824613 \<rparr>,
                          zoom = 10, bearing = 0, tilt = None \<rparr>) \<and>
   trace (handle UnnamedScreen moveCamera_rejects
              \<lparr> arePermissionsApproved = True, navigationController = Some 0 \<rparr> NavigationReady
              (initial_state \<lparr> mapViewController := Some 0 \<rparr>)) =
     [console_log ''onNavigationReady'',
      Sdk (moveCamera \<lparr> target = \<lparr> lat = 42.060047, lng = - 87.824613 \<rparr>,
                        zoom = 10, bearing = 0, tilt = None \<rparr>)] \<and>
   outcome (handle UnnamedScreen setDestinations_rejects
              \<lparr> arePermissionsApproved = True, navigationController = Some 0 \<rparr> NavigationReady
              initial_state) = Returned \<and>
   trace (handle UnnamedScreen setDestinations_rejects
              \<lparr> arePermissionsApproved = True, navigationController = Some 0 \<rparr> NavigationReady
              initial_state) =
     [console_log ''onNavigationReady'',
      Sdk (setDestinations (destinations_of wayPoints_unnamed) None)] \<and>
   snackbars (trace (handle ExampleScreen moveCamera_rejects
              \<lparr> arePermissionsApproved = True, navigationController = Some 0 \<rparr> NavigationReady
              (initial_state \<lparr> mapViewController := Some 0 \<rparr>))) = [''Error moving camera''] \<and>
   snackbars (trace (handle ExampleScreen setDestinations_rejects
              \<lparr> arePermissionsApproved = True, navigationController = Some 0 \<rparr> NavigationReady
              initial_state)) = [''Error setting destinations'']"
  by (simp add: onNavigationReady_unnamed_def moveCameraToStartingSpot_unnamed_def
      createWayPoints_def wayPoints_unnamed_def initial_state_def moveCamera_rejects_def
      setDestinations_rejects_def snackbars_onNavigationReady comb_defs)


subsection \<open>The two screens side by side\<close>

text \<open>
  Claim C3, as stated, at the navigation-ready event after focus and the creation of both
  view controllers, with no call rejecting: by method names alone, arguments left out, the
  last controller call of the second screen is \<open>showRouteOverview\<close>, a method the example
  screen does not call at all.
\<close>

theorem screens_differ_counterexample:
  "''showRouteOverview'' \<notin> set (map method_name (sdk_calls (trace
     (handle ExampleScreen no_rejections
        \<lparr> arePermissionsApproved = True, navigationController = Some 0 \<rparr> NavigationReady
        (run_events ExampleScreen \<lparr> arePermissionsApproved = True, navigationController = Some 0 \<rparr>
           [(no_rejections, Focus), (no_rejections, MapViewControllerCreated 1),
            (no_rejections, NavigationViewControllerCreated 2)] initial_state))))) \<and>
   last (map method_name (sdk_calls (trace
     (handle UnnamedScreen no_rejections
        \<lparr> arePermissionsApproved = True, navigationController = Some 0 \<rparr> NavigationReady
        (run_events UnnamedScreen \<lparr> arePermissionsApproved = True, navigationController = Some 0 \<rparr>
           [(no_rejections, Focus), (no_rejections, MapViewControllerCreated 1),
            (no_rejections, NavigationViewControllerCreated 2)] initial_state))))) =
     ''showRouteOverview''"
  by (simp add: run_events_def step_state_def onFocus_def onNavigationReady_def
      onNavigationReady_unnamed_def moveCameraToStartingSpot_def
      moveCameraToStartingSpot_unnamed_def createWayPoints_def wayPoints_def
      wayPoints_unnamed_def initial_state_def no_rejections_def comb_defs)

text \<open>
  Claim C3, amended. For every event the two screens make the same state updates. For every
  event other than navigation-ready, route status \<open>OK\<close> and the recenter button, the two
  screens do the same in full: the same state, the same trace and the same outcome.
\<close>

theorem screens_agree:
  "st (handle ExampleScreen rejects h e s) = st (handle UnnamedScreen rejects h e s) \<and>
   (e \<notin> {NavigationReady, RouteStatusResult OK, RecenterButtonClick} \<longrightarrow>
      handle ExampleScreen rejects h e s = handle UnnamedScreen rejects h e s)"
proof -
  have "handle ExampleScreen rejects h e s = handle UnnamedScreen rejects h e s"
    if "e \<notin> {NavigationReady, RouteStatusResult OK, RecenterButtonClick}"
  proof (cases e)
    case (RouteStatusResult rs)
    then show ?thesis using that by (cases rs) simp_all
  qed (use that in simp_all)
  then show ?thesis by (simp add: handle_state del: handle.simps)
qed

theorem screens_agree_witness:
  "Blur \<notin> {NavigationReady, RouteStatusResult OK, RecenterButtonClick} \<and>
   handle ExampleScreen no_rejections
     \<lparr> arePermissionsApproved = True, navigationController = Some 0 \<rparr> Blur
     (initial_state \<lparr> mapViewController := Some 0 \<rparr>) =
   handle UnnamedScreen no_rejections
     \<lparr> arePermissionsApproved = True, navigationController = Some 0 \<rparr> Blur
     (initial_state \<lparr> mapViewController := Some 0 \<rparr>) \<and>
   sdk_calls (trace (handle UnnamedScreen no_rejections
     \<lparr> arePermissionsApproved = True, navigationController = Some 0 \<rparr> Blur
     (initial_state \<lparr> mapViewController := Some 0 \<rparr>))) =
     [clearMapView, clearDestinations, cleanup]"
  using screens_agree [of no_rejections
      "\<lparr> arePermissionsApproved = True, navigationController = Some 0 \<rparr>" Blur
      "initial_state \<lparr> mapViewController := Some 0 \<rparr>"]
  by (simp add: onBlur_def cleanUpNavigation_def no_rejections_def initial_state_def comb_defs)



end
